theory Spec2Isabelle
  imports Complex_Main "HOL-Library.Word"
begin

section \<open>Strings and numbers of the host language\<close>

text \<open>
  A JavaScript string is a sequence of 16-bit code units, and \<open>===\<close> on two strings
  compares them code unit by code unit: a string is a list of 16-bit words and \<open>===\<close>
  is HOL equality.  \<open>js\<close> writes a literal of the source.
\<close>

type_synonym js_string = "16 word list"

definition js :: "string \<Rightarrow> js_string" where
  "js s = map (\<lambda>c. word_of_nat (of_char c)) s"

text \<open>
  Truthiness of a string, or of an optional string: \<open>undefined\<close>, \<open>null\<close> and the
  empty string are falsy.
\<close>

definition truthy :: "js_string option \<Rightarrow> bool" where
  "truthy v = (case v of None \<Rightarrow> False | Some s \<Rightarrow> s \<noteq> [])"

text \<open>
  \<open>String.prototype.trim\<close> removes the WhiteSpace and LineTerminator code points at
  both ends.
\<close>

definition js_whitespace :: "16 word \<Rightarrow> bool" where
  "js_whitespace c =
     (c = 0x9 \<or> c = 0xA \<or> c = 0xB \<or> c = 0xC \<or> c = 0xD \<or> c = 0x20 \<or> c = 0xA0
      \<or> c = 0x1680 \<or> (0x2000 \<le> c \<and> c \<le> 0x200A) \<or> c = 0x2028 \<or> c = 0x2029
      \<or> c = 0x202F \<or> c = 0x205F \<or> c = 0x3000 \<or> c = 0xFEFF)"

definition trim :: "js_string \<Rightarrow> js_string" where
  "trim s = rev (dropWhile js_whitespace (rev (dropWhile js_whitespace s)))"

text \<open>
  \<open>Number.prototype.toString\<close> on an integer (of magnitude below \<open>10^21\<close>, as every
  reading of \<open>Date.now()\<close> is): its decimal digits, with a minus sign below zero.
\<close>

fun decimal :: "nat \<Rightarrow> js_string" where
  "decimal n =
     (if n < 10 then [0x30 + word_of_nat n]
      else decimal (n div 10) @ [0x30 + word_of_nat (n mod 10)])"

declare decimal.simps [simp del]

definition Number_toString :: "int \<Rightarrow> js_string" where
  "Number_toString i = (if i < 0 then 0x2D # decimal (nat (- i)) else decimal (nat i))"

text \<open>
  The remainder operator \<open>%\<close> on integers, for a divisor other than zero: the result
  has the sign of the dividend.  (With a zero divisor the source gets \<open>NaN\<close>; every use
  below is guarded by a non-empty notebook.)
\<close>

definition js_rem :: "int \<Rightarrow> int \<Rightarrow> int" where
  "js_rem a b = sgn a * (\<bar>a\<bar> mod \<bar>b\<bar>)"

text \<open>
  Reading an array at a position: \<open>undefined\<close> (here \<open>None\<close>) outside the array.
\<close>

definition js_index :: "'a list \<Rightarrow> int \<Rightarrow> 'a option" where
  "js_index xs i = (if 0 \<le> i \<and> i < int (length xs) then Some (xs ! nat i) else None)"

text \<open>The exceptions the modelled code can meet.\<close>

datatype js_error =
    TypeError
  | SyntaxError
  | NotSupportedError
  | Error js_string
  | ServiceError

section \<open>JSON.parse\<close>
























section \<open>Data model (types.ts)\<close>

datatype ViewState = SEARCH | NOTEBOOK | FLASHCARDS | STORY

record Example =
  english :: js_string
  mandarin :: js_string

text \<open>
  \<open>interface DictionaryEntry\<close>.  Its four explanation fields are the ones the response
  schema of \<open>explainTerm\<close> also has, so they form a record of their own that both
  extend.  The fields \<open>id\<close>, \<open>term\<close> and \<open>context\<close> carry the prefix \<open>entry_\<close>; an
  optional field (\<open>context?\<close>, \<open>imageUrl?\<close>) is an option, \<open>None\<close> for \<open>undefined\<close>.
  \<open>timestamp\<close> holds a reading of \<open>Date.now()\<close>, an integer.
\<close>

record Explanation =
  definitionEnglish :: js_string
  definitionMandarin :: js_string
  examples :: "Example list"
  usageNote :: js_string

record DictionaryEntry = Explanation +
  entry_id :: js_string
  entry_term :: js_string
  entry_context :: "js_string option"
  imageUrl :: "js_string option"
  timestamp :: int

section \<open>The notebook (App.tsx)\<close>

subsection \<open>Loading on mount\<close>



subsection \<open>toggleSave\<close>

text \<open>
  \<open>toggleSave\<close> looks the term up in the \<open>notebook\<close> of the render the handler belongs
  to and hands \<open>setNotebook\<close> an updater, which receives the current collection \<open>prev\<close>:
  \<^verbatim>\<open>
  const exists = notebook.find(n => n.term === entry.term);
  if (exists) setNotebook(prev => prev.filter(n => n.term !== entry.term));
  else        setNotebook(prev => [...prev, entry]);
  \<close>
  An entry is an object, so \<open>exists\<close> is truthy exactly when \<open>find\<close> returns one.
\<close>

definition toggleSave_updater ::
  "DictionaryEntry list \<Rightarrow> DictionaryEntry \<Rightarrow> DictionaryEntry list \<Rightarrow> DictionaryEntry list" where
  "toggleSave_updater notebook entry =
     (case List.find (\<lambda>n. entry_term n = entry_term entry) notebook of
        Some exists \<Rightarrow> (\<lambda>prev. filter (\<lambda>n. entry_term n \<noteq> entry_term entry) prev)
      | None \<Rightarrow> (\<lambda>prev. prev @ [entry]))"

text \<open>One click: the updater runs on the collection the handler saw.\<close>

definition toggleSave :: "DictionaryEntry list \<Rightarrow> DictionaryEntry \<Rightarrow> DictionaryEntry list" where
  "toggleSave notebook entry = toggleSave_updater notebook entry notebook"

section \<open>The gateway (services/geminiService.ts)\<close>

subsection \<open>explainTerm\<close>

text \<open>
  What the service can answer to the request of \<open>explainTerm\<close>: the call is rejected;
  the response has no text (\<open>response.text\<close> is \<open>undefined\<close> or empty); the text is not
  JSON, so \<open>JSON.parse\<close> throws; or the text is an object of the shape the request's
  \<open>responseSchema\<close> demands: the four explanation fields and \<open>imagePrompt\<close>.  The code
  takes the parsed value at that shape without a check, and so does the model.
  \<^verbatim>\<open>
  const text = response.text;
  if (!text) throw new Error("No response from AI");
  return JSON.parse(text);
  \<close>
\<close>

record TextData = Explanation +
  imagePrompt :: "js_string option"

datatype explain_reply =
    Explain_rejected
  | Explain_no_text
  | Explain_unparsable
  | Explain_parsed TextData

definition explainTerm :: "explain_reply \<Rightarrow> js_error + TextData" where
  "explainTerm reply =
     (case reply of
        Explain_rejected \<Rightarrow> Inl ServiceError
      | Explain_no_text \<Rightarrow> Inl (Error (js ''No response from AI''))
      | Explain_unparsable \<Rightarrow> Inl SyntaxError
      | Explain_parsed textData \<Rightarrow> Inr textData)"

subsection \<open>generateConceptImage\<close>

text \<open>The response of the image model, as far as the code reads it.\<close>

record InlineData =
  mimeType :: "js_string option"
  data :: "js_string option"

record Part =
  part_text :: "js_string option"
  inlineData :: "InlineData option"

record Content =
  parts :: "Part list option"

record Candidate =
  content :: "Content option"

record GenerateContentResponse =
  candidates :: "Candidate list option"

datatype image_reply =
    Image_rejected
  | Image_response GenerateContentResponse

text \<open>A value inside a template literal: \<open>undefined\<close> prints as its name.\<close>

definition template :: "js_string option \<Rightarrow> js_string" where
  "template v = (case v of None \<Rightarrow> js ''undefined'' | Some s \<Rightarrow> s)"

text \<open>\<open>response.candidates?.[0]?.content?.parts\<close>\<close>

definition first_parts :: "GenerateContentResponse \<Rightarrow> Part list option" where
  "first_parts response =
     (case candidates response of
        None \<Rightarrow> None
      | Some cs \<Rightarrow>
          (case js_index cs 0 of
             None \<Rightarrow> None
           | Some c \<Rightarrow>
               (case content c of
                  None \<Rightarrow> None
                | Some ct \<Rightarrow> parts ct)))"

text \<open>
  The loop over the parts returns at the first one that has \<open>inlineData\<close>:
  \<^verbatim>\<open>
  for (const part of response.candidates[0].content.parts) {
    if (part.inlineData) {
      return `data:${part.inlineData.mimeType};base64,${part.inlineData.data}`;
    }
  }
  \<close>
\<close>

fun image_of_parts :: "Part list \<Rightarrow> js_string option" where
  "image_of_parts [] = None"
| "image_of_parts (part # rest) =
     (case inlineData part of
        Some d \<Rightarrow> Some (js ''data:'' @ template (mimeType d) @ js '';base64,'' @ template (data d))
      | None \<Rightarrow> image_of_parts rest)"

text \<open>
  Every failure ends in \<open>undefined\<close>: the \<open>catch\<close> around the whole body logs the error
  and returns it.
\<close>

definition generateConceptImage :: "image_reply \<Rightarrow> js_string option" where
  "generateConceptImage reply =
     (case reply of
        Image_rejected \<Rightarrow> None
      | Image_response response \<Rightarrow>
          (case first_parts response of
             Some ps \<Rightarrow> image_of_parts ps
           | None \<Rightarrow> None))"

subsection \<open>generateStoryFromList\<close>

datatype story_reply =
    Story_rejected
  | Story_response "js_string option"

definition generateStoryFromList :: "story_reply \<Rightarrow> js_error + js_string" where
  "generateStoryFromList reply =
     (case reply of
        Story_rejected \<Rightarrow> Inl ServiceError
      | Story_response t \<Rightarrow> Inr (if truthy t then the t else js ''Could not generate story.''))"

subsection \<open>pcmToAudioBuffer\<close>

text \<open>
  \<open>new Int16Array(data.buffer, data.byteOffset, data.byteLength / 2)\<close> views the bytes in
  pairs, the low byte first (the byte order of the hosts a browser runs on).  The
  constructor truncates a length that is not an integer.  \<open>data\<close> is the list of the bytes
  of the \<open>Uint8Array\<close> that \<open>decodeBase64\<close> has made.
\<close>

definition Int16Array :: "8 word list \<Rightarrow> nat \<Rightarrow> 16 word list" where
  "Int16Array bytes n = map (\<lambda>k. word_cat (bytes ! (2 * k + 1)) (bytes ! (2 * k))) [0..<n]"

text \<open>
  An \<open>AudioBuffer\<close> and \<open>AudioContext.createBuffer\<close>, which refuses a zero argument and a
  sample rate outside its range; the range every implementation has is 8000 to 96000, and
  a rate outside it counts as refused here.  The samples of a channel are 32-bit floats;
  the decoder writes quotients \<open>k / 32768\<close> of a 16-bit \<open>k\<close> only, which a 32-bit float
  holds exactly, so a sample is modelled by the real number it denotes.
\<close>

record AudioBuffer =
  numberOfChannels :: nat
  sampleRate :: nat
  channels :: "real list list"

definition createBuffer :: "nat \<Rightarrow> nat \<Rightarrow> nat \<Rightarrow> js_error + AudioBuffer" where
  "createBuffer n len rate =
     (if n = 0 \<or> len = 0 \<or> rate < 8000 \<or> 96000 < rate then Inl NotSupportedError
      else Inr \<lparr>numberOfChannels = n, sampleRate = rate,
                channels = replicate n (replicate len 0)\<rparr>)"

text \<open>
  \<^verbatim>\<open>
  for (let i = 0; i < pcm16.length; i++) {
    channelData[i] = pcm16[i] / 32768.0;
  }
  \<close>
\<close>

function convert_samples :: "16 word list \<Rightarrow> nat \<Rightarrow> real list \<Rightarrow> real list" where
  "convert_samples pcm16 i channelData =
     (if i < length pcm16
      then convert_samples pcm16 (Suc i) (channelData[i := real_of_int (sint (pcm16 ! i)) / 32768])
      else channelData)"
  by pat_completeness auto
termination
  by (relation "measure (\<lambda>(pcm16, i, channelData). length pcm16 - i)") auto

declare convert_samples.simps [simp del]

definition pcmToAudioBuffer :: "8 word list \<Rightarrow> nat \<Rightarrow> js_error + AudioBuffer" where
  "pcmToAudioBuffer bytes rate =
     (let pcm16 = Int16Array bytes (length bytes div 2) in
      case createBuffer 1 (length pcm16) rate of
        Inl e \<Rightarrow> Inl e
      | Inr buffer \<Rightarrow>
          Inr (buffer\<lparr>channels := (channels buffer)[0 := convert_samples pcm16 0 (channels buffer ! 0)]\<rparr>))"

section \<open>The flashcard (components/Flashcard.tsx)\<close>

text \<open>
  What the component puts on the screen.  Both faces are part of every rendering (the
  flip only changes a style class), so the back face is computed whenever the card is
  shown.  The prop \<open>entry\<close> is what the caller read from the notebook, which is
  \<open>undefined\<close> for a position outside it.
\<close>

record card_view =
  card_number :: int
  card_total :: nat
  front_image :: "js_string option"
  front_term :: js_string
  back_definition :: js_string
  back_meaning :: js_string
  back_example :: js_string

text \<open>
  Reading a property of \<open>undefined\<close> throws a \<open>TypeError\<close>: \<open>entry.imageUrl\<close> when there
  is no entry, \<open>entry.examples[0].english\<close> when the list of examples is empty.
\<close>

definition Flashcard :: "DictionaryEntry option \<Rightarrow> nat \<Rightarrow> int \<Rightarrow> js_error + card_view" where
  "Flashcard entry total_cards currentIndex =
     (case entry of
        None \<Rightarrow> Inl TypeError
      | Some e \<Rightarrow>
          (case js_index (examples e) 0 of
             None \<Rightarrow> Inl TypeError
           | Some ex \<Rightarrow>
               Inr \<lparr>card_number = currentIndex + 1, card_total = total_cards,
                    front_image = (if truthy (imageUrl e) then imageUrl e else None),
                    front_term = entry_term e,
                    back_definition = definitionEnglish e,
                    back_meaning = definitionMandarin e,
                    back_example = english ex\<rparr>))"

section \<open>The application (App.tsx)\<close>

text \<open>
  The state of the component \<open>App\<close>: one field for each \<open>useState\<close>, with the initial
  values of the source.  The state variable \<open>context\<close> is called \<open>search_context\<close>.
\<close>

record App_state =
  view :: ViewState
  notebook :: "DictionaryEntry list"
  searchTerm :: js_string
  search_context :: js_string
  isSearching :: bool
  currentResult :: "DictionaryEntry option"
  flashcardIndex :: int
  story :: "js_string option"
  isGeneratingStory :: bool

definition App_initial :: App_state where
  "App_initial =
     \<lparr>view = SEARCH, notebook = [], searchTerm = [], search_context = [],
      isSearching = False, currentResult = None, flashcardIndex = 0,
      story = None, isGeneratingStory = False\<rparr>"

text \<open>
  What a handler does to the outside: its calls into the gateway, with their arguments,
  and the alert.  (Console output is left out.)
\<close>

datatype effect =
    Call_explainTerm js_string js_string
  | Call_generateConceptImage js_string
  | Call_generateStoryFromList "js_string list"
  | Alert js_string

subsection \<open>handleSearch\<close>

text \<open>
  A handler is modelled from its call to its end, with the answers of the services and
  the two readings of the clock as arguments; no other event comes in between.  The
  spread \<open>...textData\<close> copies the fields of the explanation into the entry (and with them
  \<open>imagePrompt\<close>, a property outside \<open>DictionaryEntry\<close> that nothing reads).
  \<^verbatim>\<open>
  if (!searchTerm.trim()) return;
  setIsSearching(true);
  setCurrentResult(null);
  try {
    const textData: any = await explainTerm(searchTerm, context);
    const imagePrompt = textData.imagePrompt || searchTerm;
    const imageUrl = await generateConceptImage(imagePrompt);
    const entry: DictionaryEntry = {
      id: Date.now().toString(), term: searchTerm, context, timestamp: Date.now(),
      ...textData, imageUrl };
    setCurrentResult(entry);
  } catch (e) {
    alert("Something went wrong. Please try again.");
  } finally {
    setIsSearching(false);
  }
  \<close>
\<close>

definition handleSearch ::
  "App_state \<Rightarrow> explain_reply \<Rightarrow> image_reply \<Rightarrow> int \<Rightarrow> int \<Rightarrow> App_state \<times> effect list" where
  "handleSearch s explained illustrated now1 now2 =
     (if trim (searchTerm s) = [] then (s, [])
      else
        (case explainTerm explained of
           Inl e \<Rightarrow>
             (s\<lparr>currentResult := None, isSearching := False\<rparr>,
              [Call_explainTerm (searchTerm s) (search_context s),
               Alert (js ''Something went wrong. Please try again.'')])
         | Inr textData \<Rightarrow>
             (let prompt = (if truthy (imagePrompt textData) then the (imagePrompt textData)
                            else searchTerm s);
                  url = generateConceptImage illustrated;
                  entry = \<lparr>definitionEnglish = definitionEnglish textData,
                           definitionMandarin = definitionMandarin textData,
                           examples = examples textData,
                           usageNote = usageNote textData,
                           entry_id = Number_toString now1,
                           entry_term = searchTerm s,
                           entry_context = Some (search_context s),
                           imageUrl = url,
                           timestamp = now2\<rparr>
              in (s\<lparr>currentResult := Some entry, isSearching := False\<rparr>,
                  [Call_explainTerm (searchTerm s) (search_context s),
                   Call_generateConceptImage prompt]))))"

subsection \<open>handleGenerateStory\<close>

text \<open>
  \<^verbatim>\<open>
  if (notebook.length === 0) return;
  setIsGeneratingStory(true);
  setStory(null);
  try {
    const terms = notebook.map(n => n.term);
    const result = await generateStoryFromList(terms);
    setStory(result);
    setView(ViewState.STORY);
  } catch (e) { console.error(e); }
  finally { setIsGeneratingStory(false); }
  \<close>
\<close>

definition handleGenerateStory :: "App_state \<Rightarrow> story_reply \<Rightarrow> App_state \<times> effect list" where
  "handleGenerateStory s narrated =
     (if length (notebook s) = 0 then (s, [])
      else
        (let terms = map entry_term (notebook s) in
         case generateStoryFromList narrated of
           Inl e \<Rightarrow>
             (s\<lparr>story := None, isGeneratingStory := False\<rparr>,
              [Call_generateStoryFromList terms])
         | Inr result \<Rightarrow>
             (s\<lparr>story := Some result, view := STORY, isGeneratingStory := False\<rparr>,
              [Call_generateStoryFromList terms])))"

subsection \<open>The views and their controls\<close>

text \<open>
  \<open>renderFlashcards\<close>: the placeholder for an empty notebook, else the card of
  \<open>notebook[flashcardIndex]\<close>.
\<close>

datatype flashcards_view = Unlock_message | Card card_view

definition renderFlashcards :: "App_state \<Rightarrow> js_error + flashcards_view" where
  "renderFlashcards s =
     (if length (notebook s) = 0 then Inr Unlock_message
      else
        (case Flashcard (js_index (notebook s) (flashcardIndex s))
                (length (notebook s)) (flashcardIndex s) of
           Inl e \<Rightarrow> Inl e
         | Inr shown \<Rightarrow> Inr (Card shown)))"

text \<open>
  The two updaters the card's buttons pass to \<open>setFlashcardIndex\<close>, with the length of
  the notebook of the rendering:
  \<open>(prev + 1) % notebook.length\<close> and \<open>(prev - 1 + notebook.length) % notebook.length\<close>.
\<close>

definition onNext :: "nat \<Rightarrow> int \<Rightarrow> int" where
  "onNext notebook_length prev = js_rem (prev + 1) (int notebook_length)"

definition onPrev :: "nat \<Rightarrow> int \<Rightarrow> int" where
  "onPrev notebook_length prev = js_rem (prev - 1 + int notebook_length) (int notebook_length)"

text \<open>
  \<open>disabled={isSearching || !searchTerm}\<close> on the button of the search view and
  \<open>disabled={notebook.length < 2 || isGeneratingStory}\<close> on the Story Mode button of the
  notebook view.  A disabled button does not call its handler.
\<close>

definition explain_button_disabled :: "App_state \<Rightarrow> bool" where
  "explain_button_disabled s = (isSearching s \<or> searchTerm s = [])"

definition story_button_disabled :: "App_state \<Rightarrow> bool" where
  "story_button_disabled s = (length (notebook s) < 2 \<or> isGeneratingStory s)"

text \<open>
  Only the flashcard view can fail to render.  An error thrown while rendering takes
  the whole component tree off the screen, so no control is left to use.
\<close>

definition render_fails :: "App_state \<Rightarrow> bool" where
  "render_fails s = (view s = FLASHCARDS \<and> isl (renderFlashcards s))"

subsection \<open>The actions of the user\<close>

text \<open>
  Each control of the interface is an event; an event on a control that the current view
  does not show, or shows disabled, changes nothing.  \<open>Click_save\<close> is the save button of
  the result card (\<open>onSave(data)\<close> with the current result), \<open>Click_remove i\<close> the cross of
  row \<open>i\<close> of the notebook view (\<open>toggleSave(item)\<close>), \<open>Click_nav\<close> a button of the
  navigation bar or the back button of the story view.
\<close>

datatype event =
    Type_searchTerm js_string
  | Type_context js_string
  | Click_explain explain_reply image_reply int int
  | Click_save
  | Click_remove nat
  | Click_story story_reply
  | Click_nav ViewState
  | Click_next
  | Click_prev

definition App_step :: "App_state \<Rightarrow> event \<Rightarrow> App_state \<times> effect list" where
  "App_step s ev =
     (if render_fails s then (s, [])
      else
        (case ev of
           Type_searchTerm t \<Rightarrow>
             (if view s = SEARCH then (s\<lparr>searchTerm := t\<rparr>, []) else (s, []))
         | Type_context c \<Rightarrow>
             (if view s = SEARCH then (s\<lparr>search_context := c\<rparr>, []) else (s, []))
         | Click_explain explained illustrated now1 now2 \<Rightarrow>
             (if view s = SEARCH \<and> \<not> explain_button_disabled s
              then handleSearch s explained illustrated now1 now2 else (s, []))
         | Click_save \<Rightarrow>
             (case currentResult s of
                Some entry \<Rightarrow>
                  (if view s = SEARCH
                   then (s\<lparr>notebook := toggleSave (notebook s) entry\<rparr>, []) else (s, []))
              | None \<Rightarrow> (s, []))
         | Click_remove i \<Rightarrow>
             (if view s = NOTEBOOK \<and> i < length (notebook s)
              then (s\<lparr>notebook := toggleSave (notebook s) (notebook s ! i)\<rparr>, [])
              else (s, []))
         | Click_story narrated \<Rightarrow>
             (if view s = NOTEBOOK \<and> \<not> story_button_disabled s
              then handleGenerateStory s narrated else (s, []))
         | Click_nav v \<Rightarrow>
             (if v = STORY then (s, []) else (s\<lparr>view := v\<rparr>, []))
         | Click_next \<Rightarrow>
             (if view s = FLASHCARDS \<and> notebook s \<noteq> []
              then (s\<lparr>flashcardIndex := onNext (length (notebook s)) (flashcardIndex s)\<rparr>, [])
              else (s, []))
         | Click_prev \<Rightarrow>
             (if view s = FLASHCARDS \<and> notebook s \<noteq> []
              then (s\<lparr>flashcardIndex := onPrev (length (notebook s)) (flashcardIndex s)\<rparr>, [])
              else (s, []))))"

text \<open>A session: the events of the user one after the other, from a given state.\<close>

fun App_run :: "App_state \<Rightarrow> event list \<Rightarrow> App_state" where
  "App_run s [] = s"
| "App_run s (ev # evs) = App_run (fst (App_step s ev)) evs"

section \<open>Sample data\<close>

text \<open>An entry as a search for the term could have produced it, for the examples below.\<close>

definition example_entry :: "js_string \<Rightarrow> DictionaryEntry" where
  "example_entry t =
     \<lparr>definitionEnglish = js ''a knitted winter hat'',
      definitionMandarin = [0x6BDB, 0x7EBF, 0x5E3D],
      examples = [\<lparr>english = js ''Grab your toque.'', mandarin = [0x5E3D]\<rparr>],
      usageNote = js ''Very Canadian.'',
      entry_id = js ''1730000000000'',
      entry_term = t,
      entry_context = Some [],
      imageUrl = None,
      timestamp = 1730000000000\<rparr>"

text \<open>An answer of \<open>explainTerm\<close> of the shape its schema demands.\<close>

definition example_textData :: TextData where
  "example_textData =
     \<lparr>definitionEnglish = js ''a knitted winter hat'',
      definitionMandarin = [0x6BDB, 0x7EBF, 0x5E3D],
      examples = [\<lparr>english = js ''Grab your toque.'', mandarin = [0x5E3D]\<rparr>],
      usageNote = js ''Very Canadian.'',
      imagePrompt = Some (js ''a red hat'')\<rparr>"

text \<open>An answer of the image model that holds a text part only.\<close>

definition text_only_response :: GenerateContentResponse where
  "text_only_response =
     \<lparr>candidates = Some [\<lparr>content = Some \<lparr>parts = Some
        [\<lparr>part_text = Some (js ''I cannot draw this.''), inlineData = None\<rparr>]\<rparr>\<rparr>]\<rparr>"

text \<open>
  Sessions of a user, from the start of the application: a search for a term that is
  then saved; two such searches and a visit of the notebook view; two such searches,
  the second flashcard, and back to the notebook view; the same with the flashcards
  open.
\<close>

definition search_and_save :: "js_string \<Rightarrow> event list" where
  "search_and_save t =
     [Type_searchTerm t,
      Click_explain (Explain_parsed example_textData) Image_rejected 1730000000000 1730000000001,
      Click_save]"

definition two_terms_session :: "event list" where
  "two_terms_session =
     search_and_save (js ''toque'') @ search_and_save (js ''double-double'') @ [Click_nav NOTEBOOK]"

definition shrinking_session :: "event list" where
  "shrinking_session =
     search_and_save (js ''toque'') @ search_and_save (js ''double-double'')
     @ [Click_nav FLASHCARDS, Click_next, Click_nav NOTEBOOK]"

definition studying_state :: App_state where
  "studying_state = fst (App_step (App_run App_initial shrinking_session) (Click_nav FLASHCARDS))"

text \<open>The cursor of the flashcards points into the notebook.\<close>

definition cursor_in_range :: "App_state \<Rightarrow> bool" where
  "cursor_in_range s = (0 \<le> flashcardIndex s \<and> flashcardIndex s < int (length (notebook s)))"

section \<open>Properties of toggleSave\<close>

lemma find_term_None:
  "List.find (\<lambda>n. entry_term n = t) nb = None \<longleftrightarrow> t \<notin> entry_term ` set nb"
  by (auto simp: find_None_iff)

lemma toggleSave_absent:
  "entry_term e \<notin> entry_term ` set nb \<Longrightarrow> toggleSave nb e = nb @ [e]"
  by (simp add: toggleSave_def toggleSave_updater_def find_term_None [THEN iffD2])

lemma toggleSave_present:
  "entry_term e \<in> entry_term ` set nb \<Longrightarrow>
   toggleSave nb e = filter (\<lambda>n. entry_term n \<noteq> entry_term e) nb"
  using find_term_None [of "entry_term e" nb]
  by (auto simp: toggleSave_def toggleSave_updater_def split: option.splits)

lemma filter_other_terms:
  "t \<notin> entry_term ` set nb \<Longrightarrow> filter (\<lambda>n. entry_term n \<noteq> t) nb = nb"
  by (induction nb) auto

lemma filter_same_term_absent:
  "t \<notin> entry_term ` set nb \<Longrightarrow> filter (\<lambda>n. entry_term n = t) nb = []"
  by (induction nb) auto

text \<open>
  Claim C1.  For a notebook and an entry whose term does not occur in it, \<open>toggleSave\<close>
  appends the entry, so that the notebook is one longer and holds exactly one entry with
  that term; a second \<open>toggleSave\<close> with any entry of the same term gives the notebook
  from before, and with it the size from before.
\<close>

theorem toggleSave_round_trip:
  assumes absent: "entry_term e \<notin> entry_term ` set nb"
    and same: "entry_term e' = entry_term e"
  shows "toggleSave nb e = nb @ [e]
       \<and> length (toggleSave nb e) = length nb + 1
       \<and> filter (\<lambda>n. entry_term n = entry_term e) (toggleSave nb e) = [e]
       \<and> toggleSave (toggleSave nb e) e' = nb
       \<and> length (toggleSave (toggleSave nb e) e') = length nb"
proof -
  have added: "toggleSave nb e = nb @ [e]"
    using absent by (rule toggleSave_absent)
  have one: "filter (\<lambda>n. entry_term n = entry_term e) (nb @ [e]) = [e]"
    using absent by (simp add: filter_same_term_absent)
  have "entry_term e' \<in> entry_term ` set (nb @ [e])"
    using same by simp
  then have "toggleSave (nb @ [e]) e' = filter (\<lambda>n. entry_term n \<noteq> entry_term e') (nb @ [e])"
    by (rule toggleSave_present)
  also have "\<dots> = nb"
    using absent same by (simp add: filter_other_terms)
  finally have removed: "toggleSave (nb @ [e]) e' = nb" .
  show ?thesis
    using added one removed by simp
qed

theorem toggleSave_round_trip_witness:
  "entry_term (example_entry (js ''toque'')) \<notin> entry_term ` set [example_entry (js ''loonie'')]
   \<and> toggleSave [example_entry (js ''loonie'')] (example_entry (js ''toque''))
       = [example_entry (js ''loonie'')] @ [example_entry (js ''toque'')]
   \<and> toggleSave (toggleSave [example_entry (js ''loonie'')] (example_entry (js ''toque'')))
        ((example_entry (js ''toque''))\<lparr>imageUrl := Some (js ''data:'')\<rparr>)
       = [example_entry (js ''loonie'')]"
proof -
  have absent: "entry_term (example_entry (js ''toque''))
                  \<notin> entry_term ` set [example_entry (js ''loonie'')]"
    by (simp add: example_entry_def js_def)
  have same: "entry_term ((example_entry (js ''toque''))\<lparr>imageUrl := Some (js ''data:'')\<rparr>)
                = entry_term (example_entry (js ''toque''))"
    by simp
  show ?thesis
    using absent toggleSave_round_trip [OF absent same] by blast
qed

lemma toggleSave_distinct:
  assumes "distinct (map entry_term nb)"
  shows "distinct (map entry_term (toggleSave nb e))"
proof (cases "entry_term e \<in> entry_term ` set nb")
  case True
  then show ?thesis
    using assms by (simp add: toggleSave_present distinct_map_filter)
next
  case False
  then show ?thesis
    using assms by (simp add: toggleSave_absent)
qed

text \<open>Whatever the user does, the notebook stays as it is or goes through \<open>toggleSave\<close>.\<close>

lemma App_step_notebook:
  "notebook (fst (App_step s ev)) = notebook s
   \<or> (\<exists>entry. notebook (fst (App_step s ev)) = toggleSave (notebook s) entry)"
proof (cases ev)
  case Click_save
  then show ?thesis
    by (auto simp: App_step_def split: option.splits)
next
  case (Click_remove i)
  then show ?thesis
    by (auto simp: App_step_def)
next
  case (Click_explain explained illustrated now1 now2)
  then show ?thesis
    by (simp add: App_step_def handleSearch_def Let_def split: sum.splits)
next
  case (Click_story narrated)
  then show ?thesis
    by (simp add: App_step_def handleGenerateStory_def Let_def split: sum.splits)
qed (simp_all add: App_step_def)

lemma App_run_distinct:
  "distinct (map entry_term (notebook s)) \<Longrightarrow>
   distinct (map entry_term (notebook (App_run s evs)))"
proof (induction evs arbitrary: s)
  case Nil
  then show ?case by simp
next
  case (Cons ev evs)
  have "distinct (map entry_term (notebook (fst (App_step s ev))))"
    using App_step_notebook [of s ev] Cons.prems toggleSave_distinct [of "notebook s"]
    by auto
  then show ?case
    using Cons.IH by simp
qed

text \<open>
  Claim C3.  When no two entries of the notebook have the same term, no two entries of
  the notebook after \<open>toggleSave\<close> have: an entry whose term is already there is taken
  out, never put in a second time.  So the property survives every session of the user,
  and holds all along a session that starts with the empty notebook.
\<close>

theorem toggleSave_keeps_terms_unique:
  "(distinct (map entry_term nb) \<longrightarrow> distinct (map entry_term (toggleSave nb e)))
   \<and> (distinct (map entry_term (notebook s)) \<longrightarrow>
        distinct (map entry_term (notebook (App_run s evs))))
   \<and> distinct (map entry_term (notebook (App_run App_initial evs)))"
proof -
  have "distinct (map entry_term (notebook App_initial))"
    by (simp add: App_initial_def)
  then have "distinct (map entry_term (notebook (App_run App_initial evs)))"
    by (rule App_run_distinct)
  then show ?thesis
    using toggleSave_distinct [of nb e] App_run_distinct [of s evs] by simp
qed

theorem toggleSave_keeps_terms_unique_witness:
  "distinct (map entry_term [example_entry (js ''loonie''), example_entry (js ''toque'')])
   \<and> distinct (map entry_term
        (toggleSave [example_entry (js ''loonie''), example_entry (js ''toque'')]
           (example_entry (js ''toque''))))
   \<and> distinct (map entry_term (notebook App_initial))
   \<and> distinct (map entry_term (notebook (App_run App_initial two_terms_session)))"
proof -
  have unique: "distinct (map entry_term [example_entry (js ''loonie''), example_entry (js ''toque'')])"
    by (simp add: example_entry_def js_def)
  have start: "distinct (map entry_term (notebook App_initial))"
    by (simp add: App_initial_def)
  show ?thesis
    using unique start
      toggleSave_keeps_terms_unique
        [of "[example_entry (js ''loonie''), example_entry (js ''toque'')]"
            "example_entry (js ''toque'')" App_initial two_terms_session]
    by blast
qed

text \<open>
  Claim C2.  \<open>toggleSave\<close> takes out the entries with the term of the given entry when
  the notebook has one, and appends the given entry at the end otherwise; and whatever
  the user does, the notebook afterwards is the notebook from before or the result of
  \<open>toggleSave\<close> on it: the interface has no other way to change the notebook.
\<close>

theorem toggleSave_sole_mutation:
  "toggleSave nb e =
     (if entry_term e \<in> entry_term ` set nb
      then filter (\<lambda>n. entry_term n \<noteq> entry_term e) nb
      else nb @ [e])
   \<and> (notebook (fst (App_step s ev)) = notebook s
        \<or> (\<exists>entry. notebook (fst (App_step s ev)) = toggleSave (notebook s) entry))"
proof
  show "toggleSave nb e =
     (if entry_term e \<in> entry_term ` set nb
      then filter (\<lambda>n. entry_term n \<noteq> entry_term e) nb
      else nb @ [e])"
    by (simp add: toggleSave_absent toggleSave_present)
next
  show "notebook (fst (App_step s ev)) = notebook s
        \<or> (\<exists>entry. notebook (fst (App_step s ev)) = toggleSave (notebook s) entry)"
    by (rule App_step_notebook)
qed

theorem toggleSave_sole_mutation_witness:
  "toggleSave [example_entry (js ''loonie'')] (example_entry (js ''toque''))
     = [example_entry (js ''loonie''), example_entry (js ''toque'')]
   \<and> toggleSave [example_entry (js ''loonie''), example_entry (js ''toque'')]
        (example_entry (js ''toque''))
     = [example_entry (js ''loonie'')]"
proof -
  have absent: "entry_term (example_entry (js ''toque''))
                  \<notin> entry_term ` set [example_entry (js ''loonie'')]"
    by (simp add: example_entry_def js_def)
  have present: "entry_term (example_entry (js ''toque''))
                  \<in> entry_term ` set [example_entry (js ''loonie''), example_entry (js ''toque'')]"
    by simp
  have other: "entry_term (example_entry (js ''loonie'')) \<noteq> entry_term (example_entry (js ''toque''))"
    by (simp add: example_entry_def js_def)
  show ?thesis
    using absent present other
      toggleSave_sole_mutation [of "[example_entry (js ''loonie'')]" "example_entry (js ''toque'')"
        App_initial Click_save]
      toggleSave_sole_mutation
        [of "[example_entry (js ''loonie''), example_entry (js ''toque'')]"
            "example_entry (js ''toque'')" App_initial Click_save]
    by simp
qed

section \<open>Evaluating sessions\<close>

lemmas eval_defs = App_run.simps App_step_def App_initial_def render_fails_def handleSearch_def
  explain_button_disabled_def story_button_disabled_def explainTerm_def generateConceptImage_def
  toggleSave_def toggleSave_updater_def trim_def js_whitespace_def js_def truthy_def
  example_textData_def search_and_save_def two_terms_session_def Number_toString_def decimal.simps
  handleGenerateStory_def generateStoryFromList_def

lemma two_terms_state:
  "view (App_run App_initial two_terms_session) = NOTEBOOK
   \<and> \<not> isGeneratingStory (App_run App_initial two_terms_session)
   \<and> map entry_term (notebook (App_run App_initial two_terms_session)) = [js ''toque'', js ''double-double'']"
  by (simp add: eval_defs)

lemma shrinking_session_breaks_cursor:
  "cursor_in_range (App_run App_initial shrinking_session)
   \<and> (let s' = fst (App_step (App_run App_initial shrinking_session) (Click_remove 0)) in
         notebook s' \<noteq> []
       \<and> int (length (notebook s')) \<le> flashcardIndex s'
       \<and> \<not> cursor_in_range s'
       \<and> js_index (notebook s') (flashcardIndex s') = None
       \<and> renderFlashcards (fst (App_step s' (Click_nav FLASHCARDS))) = Inl TypeError)"
  by (simp add: eval_defs shrinking_session_def renderFlashcards_def Flashcard_def js_index_def
      onNext_def js_rem_def cursor_in_range_def Let_def)

section \<open>Story mode\<close>

lemma story_click_disabled:
  "length (notebook s) < 2 \<Longrightarrow> App_step s (Click_story narrated) = (s, [])"
  by (simp add: App_step_def story_button_disabled_def)

lemma story_click_enabled:
  "view s = NOTEBOOK \<Longrightarrow> 2 \<le> length (notebook s) \<Longrightarrow> \<not> isGeneratingStory s \<Longrightarrow>
   snd (App_step s (Click_story narrated)) = [Call_generateStoryFromList (map entry_term (notebook s))]"
  by (auto simp: App_step_def story_button_disabled_def render_fails_def handleGenerateStory_def
      Let_def split: sum.splits)

text \<open>
  Claim C5.  The Story Mode button, the only caller of \<open>handleGenerateStory\<close>, is
  disabled while the notebook holds fewer than two entries, so a click then calls nothing
  and changes nothing.  When it is enabled, the list handed to \<open>generateStoryFromList\<close>
  is the list of the terms of the notebook in its order, which is the order of insertion
  since a new entry goes to the end; for a notebook with the terms \<open>toque\<close> and
  \<open>double-double\<close> the list is \<open>["toque", "double-double"]\<close>.
\<close>

theorem story_inputs:
  "(length (notebook s) < 2 \<longrightarrow> App_step s (Click_story narrated) = (s, []))
   \<and> (view s = NOTEBOOK \<and> 2 \<le> length (notebook s) \<and> \<not> isGeneratingStory s \<longrightarrow>
        snd (App_step s (Click_story narrated))
          = [Call_generateStoryFromList (map entry_term (notebook s))])
   \<and> (entry_term e \<notin> entry_term ` set nb \<longrightarrow>
        map entry_term (toggleSave nb e) = map entry_term nb @ [entry_term e])
   \<and> (view s = NOTEBOOK \<and> \<not> isGeneratingStory s
        \<and> map entry_term (notebook s) = [js ''toque'', js ''double-double''] \<longrightarrow>
        snd (App_step s (Click_story narrated))
          = [Call_generateStoryFromList [js ''toque'', js ''double-double'']])"
proof (intro conjI impI)
  assume "length (notebook s) < 2"
  then show "App_step s (Click_story narrated) = (s, [])"
    by (rule story_click_disabled)
next
  assume "view s = NOTEBOOK \<and> 2 \<le> length (notebook s) \<and> \<not> isGeneratingStory s"
  then show "snd (App_step s (Click_story narrated))
          = [Call_generateStoryFromList (map entry_term (notebook s))]"
    by (simp add: story_click_enabled)
next
  assume "entry_term e \<notin> entry_term ` set nb"
  then show "map entry_term (toggleSave nb e) = map entry_term nb @ [entry_term e]"
    by (simp add: toggleSave_absent)
next
  assume a: "view s = NOTEBOOK \<and> \<not> isGeneratingStory s
        \<and> map entry_term (notebook s) = [js ''toque'', js ''double-double'']"
  then have "length (map entry_term (notebook s)) = 2"
    by simp
  then have "2 \<le> length (notebook s)"
    by simp
  with a show "snd (App_step s (Click_story narrated))
          = [Call_generateStoryFromList [js ''toque'', js ''double-double'']]"
    using story_click_enabled [of s narrated] by simp
qed

theorem story_inputs_witness:
  "length (notebook App_initial) < 2
   \<and> App_step App_initial (Click_story (Story_response None)) = (App_initial, [])
   \<and> view (App_run App_initial two_terms_session) = NOTEBOOK
   \<and> map entry_term (notebook (App_run App_initial two_terms_session))
        = [js ''toque'', js ''double-double'']
   \<and> snd (App_step (App_run App_initial two_terms_session) (Click_story (Story_response None)))
        = [Call_generateStoryFromList [js ''toque'', js ''double-double'']]"
proof -
  have few: "length (notebook App_initial) < 2"
    by (simp add: App_initial_def)
  note st = two_terms_state
  show ?thesis
    using few st
      story_inputs [of App_initial "Story_response None" "example_entry []" "[]"]
      story_inputs [of "App_run App_initial two_terms_session" "Story_response None"
        "example_entry []" "[]"]
    by auto
qed

section \<open>The search flow\<close>

text \<open>
  Claim C6.  When \<open>explainTerm\<close> fails in a search (the call is rejected, the response
  has no text, or its text does not parse), the handler ends with the generic alert and
  with no current result; it has called \<open>explainTerm\<close> and nothing else, so no image is
  asked for, and the notebook is as before.
\<close>

theorem explain_failure_aborts_search:
  assumes "trim (searchTerm s) \<noteq> []"
    and "explainTerm explained = Inl err"
  shows "handleSearch s explained illustrated now1 now2
           = (s\<lparr>currentResult := None, isSearching := False\<rparr>,
              [Call_explainTerm (searchTerm s) (search_context s),
               Alert (js ''Something went wrong. Please try again.'')])
       \<and> currentResult (fst (handleSearch s explained illustrated now1 now2)) = None
       \<and> notebook (fst (handleSearch s explained illustrated now1 now2)) = notebook s
       \<and> (\<forall>p. Call_generateConceptImage p \<notin> set (snd (handleSearch s explained illustrated now1 now2)))
       \<and> explainTerm Explain_unparsable = Inl SyntaxError"
  using assms by (simp add: handleSearch_def explainTerm_def)

theorem explain_failure_aborts_search_witness:
  "trim (searchTerm (App_initial\<lparr>searchTerm := js ''toque''\<rparr>)) \<noteq> []
   \<and> explainTerm Explain_unparsable = Inl SyntaxError
   \<and> handleSearch (App_initial\<lparr>searchTerm := js ''toque''\<rparr>) Explain_unparsable Image_rejected 5 6
       = (App_initial\<lparr>searchTerm := js ''toque'', currentResult := None, isSearching := False\<rparr>,
          [Call_explainTerm (js ''toque'') [],
           Alert (js ''Something went wrong. Please try again.'')])"
proof -
  have typed: "trim (searchTerm (App_initial\<lparr>searchTerm := js ''toque''\<rparr>)) \<noteq> []"
    by (simp add: trim_def js_whitespace_def js_def)
  have fails: "explainTerm Explain_unparsable = Inl SyntaxError"
    by (simp add: explainTerm_def)
  show ?thesis
    using typed fails
      explain_failure_aborts_search [OF typed fails, of Image_rejected 5 6]
    by (simp add: App_initial_def)
qed

lemma image_of_parts_none:
  "(\<forall>p \<in> set ps. inlineData p = None) \<Longrightarrow> image_of_parts ps = None"
  by (induction ps) auto

lemma generateConceptImage_fails:
  assumes "illustrated = Image_rejected
           \<or> (\<exists>response. illustrated = Image_response response
                \<and> (\<forall>ps. first_parts response = Some ps \<longrightarrow> (\<forall>p \<in> set ps. inlineData p = None)))"
  shows "generateConceptImage illustrated = None"
  using assms
  by (auto simp: generateConceptImage_def image_of_parts_none split: option.splits)

text \<open>
  Claim C7.  When \<open>explainTerm\<close> succeeds and the image step fails (the call is rejected,
  or the response has no part with image data), the search still ends with a current
  result: an entry with the four text fields of the explanation, the searched term and
  no image reference; no alert is shown.
\<close>

theorem illustrate_failure_still_ready:
  assumes "trim (searchTerm s) \<noteq> []"
    and "explained = Explain_parsed textData"
    and "illustrated = Image_rejected
         \<or> (\<exists>response. illustrated = Image_response response
              \<and> (\<forall>ps. first_parts response = Some ps \<longrightarrow> (\<forall>p \<in> set ps. inlineData p = None)))"
  shows "\<exists>entry.
           currentResult (fst (handleSearch s explained illustrated now1 now2)) = Some entry
         \<and> definitionEnglish entry = definitionEnglish textData
         \<and> definitionMandarin entry = definitionMandarin textData
         \<and> examples entry = examples textData
         \<and> usageNote entry = usageNote textData
         \<and> entry_term entry = searchTerm s
         \<and> imageUrl entry = None
         \<and> \<not> isSearching (fst (handleSearch s explained illustrated now1 now2))
         \<and> (\<forall>msg. Alert msg \<notin> set (snd (handleSearch s explained illustrated now1 now2)))"
proof -
  have "generateConceptImage illustrated = None"
    using assms(3) by (rule generateConceptImage_fails)
  then show ?thesis
    using assms(1,2) by (simp add: handleSearch_def explainTerm_def Let_def)
qed

theorem illustrate_failure_still_ready_witness:
  "trim (searchTerm (App_initial\<lparr>searchTerm := js ''toque''\<rparr>)) \<noteq> []
   \<and> generateConceptImage (Image_response text_only_response) = None
   \<and> (\<exists>entry.
         currentResult (fst (handleSearch (App_initial\<lparr>searchTerm := js ''toque''\<rparr>)
            (Explain_parsed example_textData) (Image_response text_only_response) 5 6)) = Some entry
       \<and> definitionEnglish entry = js ''a knitted winter hat''
       \<and> entry_term entry = js ''toque''
       \<and> imageUrl entry = None)"
proof -
  have typed: "trim (searchTerm (App_initial\<lparr>searchTerm := js ''toque''\<rparr>)) \<noteq> []"
    by (simp add: trim_def js_whitespace_def js_def)
  have no_image: "Image_response text_only_response = Image_rejected
         \<or> (\<exists>response. Image_response text_only_response = Image_response response
              \<and> (\<forall>ps. first_parts response = Some ps \<longrightarrow> (\<forall>p \<in> set ps. inlineData p = None)))"
    by (simp add: text_only_response_def first_parts_def js_index_def)
  have none: "generateConceptImage (Image_response text_only_response) = None"
    by (simp add: generateConceptImage_def text_only_response_def first_parts_def js_index_def)
  show ?thesis
    using typed none
      illustrate_failure_still_ready [OF typed refl no_image, of example_textData 5 6]
    by (auto simp: example_textData_def)
qed

section \<open>Flashcards\<close>

text \<open>
  Claim C9.  The back face reads \<open>entry.examples[0].english\<close> with no guard: for an
  entry with at least one example the card is rendered and shows the English sentence of
  the first example; for an entry with no example (a value of the type, and an answer the
  schema allows) rendering throws a \<open>TypeError\<close>.
\<close>

theorem flashcard_requires_example:
  "(examples e \<noteq> [] \<longrightarrow>
      (\<exists>shown. Flashcard (Some e) total_cards currentIndex = Inr shown
         \<and> back_example shown = english (hd (examples e))))
   \<and> (examples e = [] \<longrightarrow> Flashcard (Some e) total_cards currentIndex = Inl TypeError)"
  by (cases "examples e") (simp_all add: Flashcard_def js_index_def)

theorem flashcard_requires_example_witness:
  "examples (example_entry (js ''toque'')) \<noteq> []
   \<and> (\<exists>shown. Flashcard (Some (example_entry (js ''toque''))) 1 0 = Inr shown
         \<and> back_example shown = js ''Grab your toque.'')
   \<and> examples ((example_entry (js ''toque''))\<lparr>examples := []\<rparr>) = []
   \<and> Flashcard (Some ((example_entry (js ''toque''))\<lparr>examples := []\<rparr>)) 1 0 = Inl TypeError"
  using flashcard_requires_example [of "example_entry (js ''toque'')" 1 0]
    flashcard_requires_example [of "(example_entry (js ''toque''))\<lparr>examples := []\<rparr>" 1 0]
  by (simp add: example_entry_def)

lemma js_rem_nonneg:
  "0 \<le> a \<Longrightarrow> 0 < b \<Longrightarrow> js_rem a b = a mod b"
  by (cases "a = 0") (simp_all add: js_rem_def)

lemma onNext_in_range:
  "0 < n \<Longrightarrow> 0 \<le> prev \<Longrightarrow> 0 \<le> onNext n prev \<and> onNext n prev < int n"
  by (simp add: onNext_def js_rem_nonneg)

lemma onPrev_in_range:
  "0 < n \<Longrightarrow> 0 \<le> prev \<Longrightarrow> 0 \<le> onPrev n prev \<and> onPrev n prev < int n"
  by (simp add: onPrev_def js_rem_nonneg)

lemma next_prev_steps:
  assumes "cursor_in_range s" and "view s = FLASHCARDS" and "\<not> render_fails s"
  shows "cursor_in_range (fst (App_step s Click_next))
       \<and> cursor_in_range (fst (App_step s Click_prev))
       \<and> notebook (fst (App_step s Click_next)) = notebook s
       \<and> notebook (fst (App_step s Click_prev)) = notebook s"
proof -
  from assms(1) have n: "0 < length (notebook s)" and i: "0 \<le> flashcardIndex s"
    by (auto simp: cursor_in_range_def)
  then have ne: "notebook s \<noteq> []"
    by auto
  show ?thesis
    using assms(2,3) ne onNext_in_range [OF n i] onPrev_in_range [OF n i]
    by (simp add: App_step_def cursor_in_range_def)
qed

text \<open>
  Claim C10.  For a notebook of \<open>n > 0\<close> entries the updaters of the two buttons take
  an index from 0 on into \<open>[0, n)\<close>, and a click on either button keeps a cursor in
  range that was in range.  Removing an entry does not touch the cursor: there is a
  session after which the cursor is in range and one click on a cross of the notebook
  view leaves it at the length of the notebook, so that the flashcard view reads
  \<open>notebook[flashcardIndex]\<close> outside the list and fails.
\<close>

theorem cursor_not_clamped:
  "(0 < n \<and> 0 \<le> prev \<longrightarrow>
      0 \<le> onNext n prev \<and> onNext n prev < int n \<and> 0 \<le> onPrev n prev \<and> onPrev n prev < int n)
   \<and> (cursor_in_range s \<and> view s = FLASHCARDS \<and> \<not> render_fails s \<longrightarrow>
        cursor_in_range (fst (App_step s Click_next))
      \<and> cursor_in_range (fst (App_step s Click_prev)))
   \<and> (\<exists>evs i.
        cursor_in_range (App_run App_initial evs)
      \<and> (let s' = fst (App_step (App_run App_initial evs) (Click_remove i)) in
            notebook s' \<noteq> []
          \<and> int (length (notebook s')) \<le> flashcardIndex s'
          \<and> \<not> cursor_in_range s'
          \<and> js_index (notebook s') (flashcardIndex s') = None
          \<and> renderFlashcards (fst (App_step s' (Click_nav FLASHCARDS))) = Inl TypeError))"
proof -
  have steps: "0 < n \<and> 0 \<le> prev \<longrightarrow>
      0 \<le> onNext n prev \<and> onNext n prev < int n \<and> 0 \<le> onPrev n prev \<and> onPrev n prev < int n"
    using onNext_in_range [of n prev] onPrev_in_range [of n prev] by simp
  have kept: "cursor_in_range s \<and> view s = FLASHCARDS \<and> \<not> render_fails s \<longrightarrow>
        cursor_in_range (fst (App_step s Click_next))
      \<and> cursor_in_range (fst (App_step s Click_prev))"
    using next_prev_steps [of s] by simp
  have broken: "\<exists>evs i.
        cursor_in_range (App_run App_initial evs)
      \<and> (let s' = fst (App_step (App_run App_initial evs) (Click_remove i)) in
            notebook s' \<noteq> []
          \<and> int (length (notebook s')) \<le> flashcardIndex s'
          \<and> \<not> cursor_in_range s'
          \<and> js_index (notebook s') (flashcardIndex s') = None
          \<and> renderFlashcards (fst (App_step s' (Click_nav FLASHCARDS))) = Inl TypeError)"
    using shrinking_session_breaks_cursor by blast
  show ?thesis
    by (rule conjI [OF steps conjI [OF kept broken]])
qed

theorem cursor_not_clamped_witness:
  "(0 < (2::nat) \<and> 0 \<le> (1::int))
   \<and> onNext 2 1 = 0 \<and> onPrev 2 0 = 1
   \<and> cursor_in_range studying_state \<and> view studying_state = FLASHCARDS
   \<and> \<not> render_fails studying_state
   \<and> cursor_in_range (fst (App_step studying_state Click_next))
   \<and> flashcardIndex (fst (App_step studying_state Click_next)) = 0
   \<and> cursor_in_range (fst (App_step studying_state Click_prev))"
proof -
  have st: "cursor_in_range studying_state \<and> view studying_state = FLASHCARDS
            \<and> \<not> render_fails studying_state"
    by (simp add: studying_state_def eval_defs shrinking_session_def renderFlashcards_def
        Flashcard_def js_index_def onNext_def js_rem_def cursor_in_range_def)
  have idx: "flashcardIndex (fst (App_step studying_state Click_next)) = 0"
    by (simp add: studying_state_def eval_defs shrinking_session_def renderFlashcards_def
        Flashcard_def js_index_def onNext_def js_rem_def cursor_in_range_def)
  have calc: "onNext 2 1 = 0 \<and> onPrev 2 0 = 1"
    by (simp add: onNext_def onPrev_def js_rem_def)
  show ?thesis
    using st idx calc cursor_not_clamped [of 2 1 studying_state]
    by simp
qed

section \<open>Decoding audio\<close>

lemma convert_samples_length:
  "length (convert_samples pcm16 i channelData) = length channelData"
  by (induction pcm16 i channelData rule: convert_samples.induct)
     (simp add: convert_samples.simps)

lemma convert_samples_nth:
  assumes "length channelData = length pcm16" and "k < length pcm16"
  shows "convert_samples pcm16 i channelData ! k =
     (if i \<le> k then real_of_int (sint (pcm16 ! k)) / 32768 else channelData ! k)"
proof -
  define f :: "16 word \<Rightarrow> real" where "f w = real_of_int (sint w) / 32768" for w
  have step: "convert_samples xs j cd =
      (if j < length xs then convert_samples xs (Suc j) (cd[j := f (xs ! j)]) else cd)" for xs j cd
    by (subst convert_samples.simps) (simp only: f_def)
  have "length cd = length xs \<Longrightarrow> k < length xs \<Longrightarrow>
        convert_samples xs j cd ! k = (if j \<le> k then f (xs ! k) else cd ! k)" for xs j cd
  proof (induction xs j cd rule: convert_samples.induct)
    case (1 xs j cd)
    show ?case
    proof (cases "j < length xs")
      case True
      have "convert_samples xs (Suc j) (cd[j := f (xs ! j)]) ! k =
              (if Suc j \<le> k then f (xs ! k) else cd[j := f (xs ! j)] ! k)"
        using "1.IH" [OF True] "1.prems" by (simp only: f_def length_list_update)
      moreover have "cd[j := f (xs ! j)] ! k = (if k = j then f (xs ! j) else cd ! k)"
        using "1.prems" True by (simp only: nth_list_update) simp
      moreover have "k < j \<or> k = j \<or> Suc j \<le> k"
        by linarith
      ultimately show ?thesis
        using True by (subst step) auto
    next
      case False
      then show ?thesis
        using "1.prems" by (subst step) simp
    qed
  qed
  from this [OF assms] show ?thesis
    by (simp only: f_def)
qed

lemma sample_normalized:
  "- 1 \<le> real_of_int (sint (w :: 16 word)) / 32768 \<and> real_of_int (sint w) / 32768 \<le> 1"
proof -
  have "- 32768 \<le> sint w" and "sint w < 32768"
    using sint_ge [of w] sint_lt [of w] by simp_all
  then have "- 32768 \<le> real_of_int (sint w)" and "real_of_int (sint w) \<le> 32768"
    by linarith+
  then show ?thesis
    by (simp only: le_divide_eq_numeral1 divide_le_eq_numeral1) simp
qed

lemma Int16Array_Nil: "Int16Array bytes n = [] \<longleftrightarrow> n = 0"
  by (simp add: Int16Array_def)

lemma Int16Array_length: "length (Int16Array bytes n) = n"
  by (simp add: Int16Array_def)

lemma Int16Array_nth:
  "k < n \<Longrightarrow> Int16Array bytes n ! k = word_cat (bytes ! (2 * k + 1)) (bytes ! (2 * k))"
  by (simp add: Int16Array_def)

text \<open>
  Claim C8.  For a stream of 16-bit samples (two bytes at least) the decoder returns a
  buffer of one channel at 24000 Hz with one sample for each pair of bytes; sample \<open>k\<close>
  is the signed 16-bit integer of the pair \<open>k\<close> (low byte first) divided by 32768, and
  lies between \<open>-1\<close> and \<open>1\<close>.
\<close>

theorem pcm_decoding:
  assumes "2 \<le> length bytes"
  shows "\<exists>buffer samples.
           pcmToAudioBuffer bytes 24000 = Inr buffer
         \<and> numberOfChannels buffer = 1
         \<and> sampleRate buffer = 24000
         \<and> channels buffer = [samples]
         \<and> length samples = length bytes div 2
         \<and> (\<forall>k < length bytes div 2.
               samples ! k
                 = real_of_int (sint (word_cat (bytes ! (2 * k + 1)) (bytes ! (2 * k)) :: 16 word)) / 32768
             \<and> - 1 \<le> samples ! k \<and> samples ! k \<le> 1)"
proof -
  let ?n = "length bytes div 2"
  let ?pcm16 = "Int16Array bytes ?n"
  let ?samples = "convert_samples ?pcm16 0 (replicate ?n 0)"
  from assms have n: "0 < ?n" by simp
  have run: "pcmToAudioBuffer bytes 24000
           = Inr \<lparr>numberOfChannels = 1, sampleRate = 24000, channels = [?samples]\<rparr>"
    using n by (simp add: pcmToAudioBuffer_def createBuffer_def Int16Array_length Int16Array_Nil Let_def)
  have len: "length ?samples = ?n"
    by (simp add: convert_samples_length)
  have each: "\<forall>k < ?n. ?samples ! k
                 = real_of_int (sint (word_cat (bytes ! (2 * k + 1)) (bytes ! (2 * k)) :: 16 word)) / 32768
             \<and> - 1 \<le> ?samples ! k \<and> ?samples ! k \<le> 1"
  proof (intro allI impI)
    fix k assume k: "k < ?n"
    have "?samples ! k = real_of_int (sint (?pcm16 ! k)) / 32768"
      using k convert_samples_nth [of "replicate ?n 0" ?pcm16 k 0]
      by (simp add: Int16Array_length)
    then show "?samples ! k
                 = real_of_int (sint (word_cat (bytes ! (2 * k + 1)) (bytes ! (2 * k)) :: 16 word)) / 32768
             \<and> - 1 \<le> ?samples ! k \<and> ?samples ! k \<le> 1"
      using k sample_normalized [of "?pcm16 ! k"] by (simp add: Int16Array_nth)
  qed
  show ?thesis
    using run len each by simp
qed

theorem pcm_decoding_witness:
  "2 \<le> length [0x00, 0x80, 0xFF, 0x7F :: 8 word]
   \<and> (\<exists>buffer samples.
         pcmToAudioBuffer [0x00, 0x80, 0xFF, 0x7F] 24000 = Inr buffer
       \<and> numberOfChannels buffer = 1
       \<and> sampleRate buffer = 24000
       \<and> channels buffer = [samples]
       \<and> length samples = 2
       \<and> samples ! 0 = - 1
       \<and> samples ! 1 = 32767 / 32768)"
proof -
  have two: "2 \<le> length [0x00, 0x80, 0xFF, 0x7F :: 8 word]"
    by simp
  from pcm_decoding [OF two] obtain buffer samples where
    b: "pcmToAudioBuffer [0x00, 0x80, 0xFF, 0x7F] 24000 = Inr buffer"
      "numberOfChannels buffer = 1" "sampleRate buffer = 24000" "channels buffer = [samples]"
      "length samples = length [0x00, 0x80, 0xFF, 0x7F :: 8 word] div 2"
    and each: "\<forall>k < length [0x00, 0x80, 0xFF, 0x7F :: 8 word] div 2.
               samples ! k
                 = real_of_int (sint (word_cat ([0x00, 0x80, 0xFF, 0x7F :: 8 word] ! (2 * k + 1))
                                        ([0x00, 0x80, 0xFF, 0x7F :: 8 word] ! (2 * k)) :: 16 word)) / 32768
             \<and> - 1 \<le> samples ! k \<and> samples ! k \<le> 1"
    by blast
  have "samples ! 0 = - 1"
    using each [THEN spec, of 0] by (simp add: word_cat_eq del: of_int_sint)
  moreover have "samples ! 1 = 32767 / 32768"
    using each [THEN spec, of 1] by (simp add: word_cat_eq del: of_int_sint)
  ultimately show ?thesis
    using two b by simp
qed

section \<open>Loading the notebook\<close>




end
